theory Spec2Isabelle
  imports Main
begin

section \<open>The connections table (src/db/schema.sql)\<close>

text \<open>
  One row of the table \<^verbatim>\<open>connections\<close>. Every column is \<^verbatim>\<open>NOT NULL\<close>;
  \<^verbatim>\<open>space_ids\<close> is a \<^verbatim>\<open>TEXT[]\<close> (a list: order and duplicates are
  kept), \<^verbatim>\<open>created_at\<close> is filled in by the database from its clock.
  The table is a list of rows. \<^verbatim>\<open>PRIMARY KEY (broker, username)\<close> is the predicate
  \<open>pk_unique\<close>, which every statement below preserves.
  A \<^verbatim>\<open>SELECT\<close> without \<^verbatim>\<open>ORDER BY\<close> promises no order of rows. The list keeps
  an updated row at its place, where PostgreSQL may return the rewritten row after the
  others: the order of the list is a convention, and an equality of two tables or of
  two listings says of the database that they hold the same rows.
\<close>

record connection_row =
  broker :: string
  client_id :: string
  username :: string
  password :: string
  space_ids :: "string list"
  created_at :: nat

type_synonym connections = "connection_row list"

definition has_key :: "string \<Rightarrow> string \<Rightarrow> connection_row \<Rightarrow> bool" where
  "has_key b u r = (broker r = b \<and> username r = u)"

definition pk_unique :: "connections \<Rightarrow> bool" where
  "pk_unique db = distinct (map (\<lambda>r. (broker r, username r)) db)"

section \<open>The queries (src/db/generated/queries_sql.ts, src/db/queries.sql)\<close>

subsection \<open>PostgreSQL array functions\<close>

text \<open>
  \<^verbatim>\<open>ARRAY_REMOVE(a, x)\<close> removes every element equal to \<open>x\<close>.
  \<^verbatim>\<open>ARRAY_LENGTH(a, 1)\<close> is the length of the first dimension and is NULL, not 0,
  for an empty array; NULL is \<open>None\<close>. A comparison with NULL is NULL, and a
  \<^verbatim>\<open>WHERE\<close> clause keeps a row only when its condition is true: \<open>sql_eq_true\<close>.
  \<^verbatim>\<open>a @> b\<close> holds when every element of \<open>b\<close> occurs in \<open>a\<close>.
\<close>

definition array_remove :: "string list \<Rightarrow> string \<Rightarrow> string list" where
  "array_remove a x = filter (\<lambda>y. y \<noteq> x) a"

definition array_length_1 :: "string list \<Rightarrow> nat option" where
  "array_length_1 a = (if a = [] then None else Some (length a))"

definition sql_eq_true :: "nat option \<Rightarrow> nat \<Rightarrow> bool" where
  "sql_eq_true v n = (case v of None \<Rightarrow> False | Some m \<Rightarrow> m = n)"

definition array_contains :: "string list \<Rightarrow> string list \<Rightarrow> bool" where
  "array_contains a b = (set b \<subseteq> set a)"

subsection \<open>The rows the generated functions return\<close>

datatype SelectConnectionRow =
  SelectConnectionRow (sc_broker: string) (sc_clientId: string) (sc_username: string)
    (sc_spaceIds: "string list")

text \<open>\<^verbatim>\<open>InsertConnectionRow\<close> and \<^verbatim>\<open>UpdateConnectionAssociatedSpacesRow\<close>:
  the pair \<^verbatim>\<open>{broker, username}\<close> of the \<^verbatim>\<open>RETURNING\<close> clause.\<close>

type_synonym KeyRow = "string \<times> string"

definition one_row :: "'a list \<Rightarrow> 'a option" where
  \<comment> \<open>\<^verbatim>\<open>if (result.rows.length !== 1) return null; const row = result.rows[0]\<close>\<close>
  "one_row rows = (case rows of [r] \<Rightarrow> Some r | _ \<Rightarrow> None)"

subsection \<open>selectAllConnections, selectSpaceConnections, selectConnection\<close>

definition selectAllConnections :: "connections \<Rightarrow> connection_row list" where
  "selectAllConnections db = db"

definition selectSpaceConnections :: "connections \<Rightarrow> string list \<Rightarrow> connection_row list" where
  \<comment> \<open>\<^verbatim>\<open>SELECT ... FROM connections WHERE space_ids @> $1\<close>\<close>
  "selectSpaceConnections db spaceIds = filter (\<lambda>r. array_contains (space_ids r) spaceIds) db"

definition selectConnection :: "connections \<Rightarrow> string \<Rightarrow> string \<Rightarrow> SelectConnectionRow option" where
  \<comment> \<open>\<^verbatim>\<open>SELECT broker, client_id, username, space_ids FROM connections
      WHERE broker = $1 AND username = $2\<close>\<close>
  "selectConnection db b u =
     map_option (\<lambda>r. SelectConnectionRow (broker r) (client_id r) (username r) (space_ids r))
       (one_row (filter (has_key b u) db))"

subsection \<open>insertConnection\<close>

text \<open>
  The statement the managers run is the one of the generated module:
  \<^verbatim>\<open>INSERT INTO connections (broker, client_id, username, password, space_ids)
  VALUES ($1, $2, $3, $4, $5) ON CONFLICT (broker, username) DO NOTHING
  RETURNING broker, username\<close>.
  \<open>now\<close> is the database clock read for \<^verbatim>\<open>created_at\<close>.
\<close>

definition insertConnection ::
  "connections \<Rightarrow> nat \<Rightarrow> string \<Rightarrow> string \<Rightarrow> string \<Rightarrow> string \<Rightarrow> string list
     \<Rightarrow> connections \<times> KeyRow option" where
  "insertConnection db now b c u p spaceIds =
     (if filter (has_key b u) db = []
      then (db @ [\<lparr>broker = b, client_id = c, username = u, password = p,
                   space_ids = spaceIds, created_at = now\<rparr>], one_row [(b, u)])
      else (db, one_row []))"

text \<open>
  The statement of the same name in src/db/queries.sql differs in its conflict clause:
  \<^verbatim>\<open>ON CONFLICT (broker, username) DO UPDATE
  SET (client_id, password, space_ids) = ($2, $4, $5)\<close>.
\<close>

definition InsertConnection_sql ::
  "connections \<Rightarrow> nat \<Rightarrow> string \<Rightarrow> string \<Rightarrow> string \<Rightarrow> string \<Rightarrow> string list
     \<Rightarrow> connections \<times> KeyRow option" where
  "InsertConnection_sql db now b c u p spaceIds =
     (if filter (has_key b u) db = []
      then (db @ [\<lparr>broker = b, client_id = c, username = u, password = p,
                   space_ids = spaceIds, created_at = now\<rparr>], one_row [(b, u)])
      else (map (\<lambda>r. if has_key b u r
                      then r\<lparr>client_id := c, password := p, space_ids := spaceIds\<rparr> else r) db,
            one_row (map (\<lambda>r. (broker r, username r)) (filter (has_key b u) db))))"

subsection \<open>updateConnectionAssociatedSpaces\<close>

definition updateConnectionAssociatedSpaces ::
  "connections \<Rightarrow> string list \<Rightarrow> string \<Rightarrow> string \<Rightarrow> connections \<times> KeyRow option" where
  \<comment> \<open>\<^verbatim>\<open>UPDATE connections SET space_ids = $1 WHERE broker = $2 AND username = $3
      RETURNING broker, username\<close>\<close>
  "updateConnectionAssociatedSpaces db spaceIds b u =
     (map (\<lambda>r. if has_key b u r then r\<lparr>space_ids := spaceIds\<rparr> else r) db,
      one_row (map (\<lambda>r. (broker r, username r)) (filter (has_key b u) db)))"

subsection \<open>deleteSpaceFromConnectionAndPrune\<close>

text \<open>
  \<^verbatim>\<open>WITH updated AS (
      UPDATE connections SET space_ids = ARRAY_REMOVE(space_ids, $1)
      WHERE connections.broker = $2 AND connections.username = $3)
  DELETE FROM connections WHERE ARRAY_LENGTH(space_ids, 1) = 0\<close>

  The \<^verbatim>\<open>UPDATE\<close> in the \<^verbatim>\<open>WITH\<close> clause and the \<^verbatim>\<open>DELETE\<close> run on the same
  snapshot of the table: the \<^verbatim>\<open>DELETE\<close> evaluates its condition on the rows as they
  were before the statement (\<open>prune_condition\<close>), and the rows it does not delete carry
  the update. Lemma \<open>prune_condition_never\<close> below shows that the condition holds of
  no row, so the result is the same if the condition is read on the updated rows
  (\<open>deleteSpaceFromConnectionAndPrune_updated_rows\<close>).
\<close>

definition prune_condition :: "connection_row \<Rightarrow> bool" where
  "prune_condition r = sql_eq_true (array_length_1 (space_ids r)) 0"

definition remove_space :: "string \<Rightarrow> string \<Rightarrow> string \<Rightarrow> connection_row \<Rightarrow> connection_row" where
  "remove_space x b u r =
     (if has_key b u r then r\<lparr>space_ids := array_remove (space_ids r) x\<rparr> else r)"

definition deleteSpaceFromConnectionAndPrune ::
  "connections \<Rightarrow> string \<Rightarrow> string \<Rightarrow> string \<Rightarrow> connections" where
  "deleteSpaceFromConnectionAndPrune db arrayRemove b u =
     map (remove_space arrayRemove b u) (filter (\<lambda>r. \<not> prune_condition r) db)"

section \<open>The orchestrator, seen through axios\<close>

text \<open>
  Each manager operation makes at most one HTTP request to the orchestrator (MQTTAS).
  The request is recorded as it is built; what comes back is a parameter of the
  operation:
  \<^item> \<open>Resolved status\<close>: the promise resolves and \<^verbatim>\<open>{ data, status }\<close> is read,
    \<^verbatim>\<open>data\<close> being a value whose property \<^verbatim>\<open>error\<close> can be read;
  \<^item> \<open>ResolvedNoData status\<close>: the promise resolves with \<^verbatim>\<open>data\<close> null (a JSON
    body \<^verbatim>\<open>null\<close>). When the status is not 200 the operation evaluates
    \<^verbatim>\<open>data.error\<close> for its log line, which throws, and the \<^verbatim>\<open>catch\<close> block
    answers; when the status is 200 \<^verbatim>\<open>data\<close> is not read;
  \<^item> \<open>RejectedResponse status message\<close>: axios rejects with an error that carries
    \<^verbatim>\<open>err.response\<close> (a status outside 2xx), \<^verbatim>\<open>err.message\<close> being \<open>message\<close>;
  \<^item> \<open>RejectedOther\<close>: any other rejection (no response: a transport failure).
  The database calls are taken to succeed.
\<close>

datatype http_method = POST | PUT | DELETE

record http_request =
  req_method :: http_method
  req_url :: string
  req_connection :: "(string \<times> string) list"
  req_headers :: "(string \<times> string) list"

datatype axios_result =
  Resolved nat | ResolvedNoData nat | RejectedResponse nat string | RejectedOther

text \<open>The interface \<^verbatim>\<open>MqttConnection\<close> of the API module: \<^verbatim>\<open>password\<close> and
  \<^verbatim>\<open>spacesIds\<close> are optional. In a request body a missing \<^verbatim>\<open>broker\<close>,
  \<^verbatim>\<open>clientId\<close> or \<^verbatim>\<open>username\<close> is the empty string: both are falsy.\<close>

datatype MqttConnection =
  MqttConnection (mc_broker: string) (mc_clientId: string) (mc_username: string)
    (mc_password: "string option") (mc_spacesIds: "string list option")

text \<open>What is sent back: \<^verbatim>\<open>{ ok: true }\<close>, \<^verbatim>\<open>{ error: ... }\<close>, nothing, or
  \<^verbatim>\<open>{ mqttClients: [...] }\<close>, with the status.\<close>

datatype body = OkTrue | ErrorBody string | NoBody | MqttClients "MqttConnection list"

record outcome =
  reply :: "nat \<times> body"
  store :: connections
  calls :: "http_request list"

fun caught :: "axios_result \<Rightarrow> nat \<times> body" where
  \<comment> \<open>the \<^verbatim>\<open>catch (err)\<close> block of the four operations\<close>
  "caught (RejectedResponse status message) = (status, ErrorBody message)"
| "caught _ = (500, ErrorBody ''An error occurred'')"

definition falsy :: "string option \<Rightarrow> bool" where
  "falsy v = (case v of None \<Rightarrow> True | Some s \<Rightarrow> s = [])"

section \<open>The HTTP manager (src/mqttConnectionManager/mqttConnectionManager.ts)\<close>

definition getConnections :: "connections \<Rightarrow> string \<Rightarrow> nat \<times> body" where
  "getConnections db spaceId =
     (let connections = selectSpaceConnections db [spaceId] in
      if length connections = 0 then (200, NoBody)
      else (200, MqttClients
              (map (\<lambda>conn. MqttConnection (broker conn) (client_id conn) (username conn) None None)
                 connections)))"

definition postConnection ::
  "string \<Rightarrow> connections \<Rightarrow> nat \<Rightarrow> axios_result \<Rightarrow> string \<Rightarrow> MqttConnection option \<Rightarrow> outcome" where
  "postConnection mqttasAddress db now ax spaceId mqttConnection =
     (case mqttConnection of
        None \<Rightarrow> \<lparr>reply = (400, ErrorBody ''missing values in request payload''),
                 store = db, calls = []\<rparr>
      | Some m \<Rightarrow>
          if mc_broker m = [] \<or> mc_username m = [] \<or> mc_clientId m = [] \<or> falsy (mc_password m)
          then \<lparr>reply = (400, ErrorBody ''missing values in request payload''),
                 store = db, calls = []\<rparr>
          else
            let b = mc_broker m; u = mc_username m; clientId = mc_clientId m;
                p = (case mc_password m of Some s \<Rightarrow> s | None \<Rightarrow> [])
            in case selectConnection db b u of
                 None \<Rightarrow>
                   (let req = \<lparr>req_method = POST,
                               req_url = mqttasAddress @ ''/connection?space_id='' @ spaceId,
                               req_connection = [(''broker'', b), (''username'', u),
                                                 (''client_id'', clientId), (''password'', p)],
                               req_headers = [(''Content-Type'', ''application/json'')]\<rparr>
                    in case ax of
                         Resolved status \<Rightarrow>
                           if status \<noteq> 200
                           then \<lparr>reply = (404, ErrorBody
                                    ''failed to connect to broker with provided credentials''),
                                  store = db, calls = [req]\<rparr>
                           else \<lparr>reply = (200, OkTrue),
                                  store = fst (insertConnection db now b clientId u p [spaceId]),
                                  calls = [req]\<rparr>
                       | ResolvedNoData status \<Rightarrow>
                           if status \<noteq> 200
                           then \<lparr>reply = caught ax, store = db, calls = [req]\<rparr>
                           else \<lparr>reply = (200, OkTrue),
                                  store = fst (insertConnection db now b clientId u p [spaceId]),
                                  calls = [req]\<rparr>
                       | _ \<Rightarrow> \<lparr>reply = caught ax, store = db, calls = [req]\<rparr>)
               | Some connection \<Rightarrow>
                   if spaceId \<in> set (sc_spaceIds connection)
                   then \<lparr>reply = (200, OkTrue), store = db, calls = []\<rparr>
                   else
                     (let updatedSpaceIds = sc_spaceIds connection @ [spaceId];
                          req = \<lparr>req_method = PUT,
                                 req_url = mqttasAddress @ ''/connection?space_id='' @ spaceId,
                                 req_connection = [(''broker'', b), (''username'', u)],
                                 req_headers = [(''Content-Type'', ''application/json'')]\<rparr>
                      in case ax of
                           Resolved status \<Rightarrow>
                             if status \<noteq> 200
                             then \<lparr>reply = (404, ErrorBody
                                      ''failed to connect to broker with provided credentials''),
                                    store = db, calls = [req]\<rparr>
                             else \<lparr>reply = (200, OkTrue),
                                    store = fst (updateConnectionAssociatedSpaces db
                                                   updatedSpaceIds b u),
                                    calls = [req]\<rparr>
                         | ResolvedNoData status \<Rightarrow>
                             if status \<noteq> 200
                             then \<lparr>reply = caught ax, store = db, calls = [req]\<rparr>
                             else \<lparr>reply = (200, OkTrue),
                                    store = fst (updateConnectionAssociatedSpaces db
                                                   updatedSpaceIds b u),
                                    calls = [req]\<rparr>
                         | _ \<Rightarrow> \<lparr>reply = caught ax, store = db, calls = [req]\<rparr>))"

definition deleteConnection ::
  "string \<Rightarrow> connections \<Rightarrow> axios_result \<Rightarrow> string \<Rightarrow> string \<Rightarrow> string \<Rightarrow> outcome" where
  "deleteConnection mqttasAddress db ax spaceId u b =
     (if u = [] \<or> b = []
      then \<lparr>reply = (400, ErrorBody ''mqtt username and broker must be provided''),
             store = db, calls = []\<rparr>
      else case selectConnection db b u of
             None \<Rightarrow> \<lparr>reply = (404, ErrorBody (''connection '' @ u @ ''@'' @ b @ '' not found'')),
                      store = db, calls = []\<rparr>
           | Some connection \<Rightarrow>
               if spaceId \<notin> set (sc_spaceIds connection)
               then \<lparr>reply = (404, ErrorBody (''connection '' @ u @ ''@'' @ b
                                 @ '' not associated with space '' @ spaceId)),
                      store = db, calls = []\<rparr>
               else
                 (let req = \<lparr>req_method = DELETE,
                             req_url = mqttasAddress @ ''/connection?space_id='' @ spaceId
                                         @ ''&username='' @ u @ ''&broker='' @ b,
                             req_connection = [],
                             req_headers = [(''Content-Type'', ''application/json'')]\<rparr>
                  in case ax of
                       Resolved status \<Rightarrow>
                         if status \<noteq> 200
                         then \<lparr>reply = (404, ErrorBody
                                  (''failed to delete connection '' @ u @ ''@'' @ b)),
                                store = db, calls = [req]\<rparr>
                         else \<lparr>reply = (200, OkTrue),
                                store = deleteSpaceFromConnectionAndPrune db spaceId b u,
                                calls = [req]\<rparr>
                     | ResolvedNoData status \<Rightarrow>
                         if status \<noteq> 200
                         then \<lparr>reply = caught ax, store = db, calls = [req]\<rparr>
                         else \<lparr>reply = (200, OkTrue),
                                store = deleteSpaceFromConnectionAndPrune db spaceId b u,
                                calls = [req]\<rparr>
                     | _ \<Rightarrow> \<lparr>reply = caught ax, store = db, calls = [req]\<rparr>))"

section \<open>The provisioning manager (src/mqtt/mqttConnectionManager.ts)\<close>

text \<open>\<^verbatim>\<open>MqttConnectionState\<close>, as the manager reads it: the optional password is
  cast (\<^verbatim>\<open>mqttConnection.password as string\<close>) and is a string here.
  In \<open>createMqttConnection\<close>, \<open>initialise\<close> is the branch taken when
  \<^verbatim>\<open>!connection || connection.spaceIds.length === 0\<close>.\<close>

datatype MqttConnectionState =
  MqttConnectionState (ms_broker: string) (ms_clientId: string) (ms_username: string)
    (ms_password: string)

definition createMqttConnection ::
  "string \<Rightarrow> connections \<Rightarrow> nat \<Rightarrow> axios_result \<Rightarrow> MqttConnectionState \<Rightarrow> string \<Rightarrow> string
     \<Rightarrow> outcome" where
  "createMqttConnection mqttasAddress db now ax mqttConnection accessToken spaceId =
     (let b = ms_broker mqttConnection; u = ms_username mqttConnection;
          clientId = ms_clientId mqttConnection; p = ms_password mqttConnection;
          initialise =
            (let req = \<lparr>req_method = POST,
                        req_url = mqttasAddress @ ''/connection?space_id='' @ spaceId,
                        req_connection = [(''broker'', b), (''username'', u),
                                          (''client_id'', clientId), (''password'', p)],
                        req_headers = [(''Content-Type'', ''application/json''),
                                       (''Authorization'', ''Bearer '' @ accessToken)]\<rparr>
             in case ax of
                  Resolved status \<Rightarrow>
                    if status \<noteq> 200
                    then \<lparr>reply = (404, ErrorBody
                             ''failed to connect to broker with provided credentials''),
                           store = db, calls = [req]\<rparr>
                    else \<lparr>reply = (200, OkTrue),
                           store = fst (insertConnection db now b clientId u p [spaceId]),
                           calls = [req]\<rparr>
                | ResolvedNoData status \<Rightarrow>
                    if status \<noteq> 200
                    then \<lparr>reply = caught ax, store = db, calls = [req]\<rparr>
                    else \<lparr>reply = (200, OkTrue),
                           store = fst (insertConnection db now b clientId u p [spaceId]),
                           calls = [req]\<rparr>
                | _ \<Rightarrow> \<lparr>reply = caught ax, store = db, calls = [req]\<rparr>)
      in case selectConnection db b u of
           None \<Rightarrow> initialise
         | Some connection \<Rightarrow>
             if length (sc_spaceIds connection) = 0 then initialise
             else if spaceId \<in> set (sc_spaceIds connection)
             then \<lparr>reply = (200, OkTrue), store = db, calls = []\<rparr>
             else
               (let updatedSpaceIds = sc_spaceIds connection @ [spaceId];
                    req = \<lparr>req_method = PUT,
                           req_url = mqttasAddress @ ''/connection?space_id='' @ spaceId,
                           req_connection = [(''broker'', b), (''username'', u)],
                           req_headers = [(''Content-Type'', ''application/json''),
                                          (''Authorization'', ''Bearer '' @ accessToken)]\<rparr>
                in case ax of
                     Resolved status \<Rightarrow>
                       if status \<noteq> 200
                       then \<lparr>reply = (404, ErrorBody
                                ''failed to connect to broker with provided credentials''),
                              store = db, calls = [req]\<rparr>
                       else \<lparr>reply = (200, OkTrue),
                              store = fst (updateConnectionAssociatedSpaces db updatedSpaceIds b u),
                              calls = [req]\<rparr>
                   | ResolvedNoData status \<Rightarrow>
                       if status \<noteq> 200
                       then \<lparr>reply = caught ax, store = db, calls = [req]\<rparr>
                       else \<lparr>reply = (200, OkTrue),
                              store = fst (updateConnectionAssociatedSpaces db updatedSpaceIds b u),
                              calls = [req]\<rparr>
                   | _ \<Rightarrow> \<lparr>reply = caught ax, store = db, calls = [req]\<rparr>))"

definition deleteMqttConnection ::
  "string \<Rightarrow> connections \<Rightarrow> axios_result \<Rightarrow> MqttConnectionState \<Rightarrow> string \<Rightarrow> string \<Rightarrow> outcome" where
  "deleteMqttConnection mqttasAddress db ax mqttConnection accessToken spaceId =
     (let u = ms_username mqttConnection; b = ms_broker mqttConnection
      in if u = [] \<or> b = []
         then \<lparr>reply = (400, ErrorBody ''this.mqtt username and broker must be provided''),
                store = db, calls = []\<rparr>
         else case selectConnection db b u of
                None \<Rightarrow> \<lparr>reply = (404, ErrorBody (''connection '' @ u @ ''@'' @ b @ '' not found'')),
                         store = db, calls = []\<rparr>
              | Some connection \<Rightarrow>
                  if spaceId \<notin> set (sc_spaceIds connection)
                  then \<lparr>reply = (404, ErrorBody (''connection '' @ u @ ''@'' @ b
                                    @ '' not associated with space '' @ spaceId)),
                         store = db, calls = []\<rparr>
                  else
                    (let req = \<lparr>req_method = DELETE,
                                req_url = mqttasAddress @ ''/connection?space_id='' @ spaceId
                                            @ ''&username='' @ u @ ''&broker='' @ b,
                                req_connection = [],
                                req_headers = [(''Content-Type'', ''application/json''),
                                               (''Authorization'', ''Bearer '' @ accessToken)]\<rparr>
                     in case ax of
                          Resolved status \<Rightarrow>
                            if status \<noteq> 200
                            then \<lparr>reply = (404, ErrorBody
                                     (''failed to delete connection '' @ u @ ''@'' @ b)),
                                   store = db, calls = [req]\<rparr>
                            else \<lparr>reply = (200, OkTrue),
                                   store = deleteSpaceFromConnectionAndPrune db spaceId b u,
                                   calls = [req]\<rparr>
                        | ResolvedNoData status \<Rightarrow>
                            if status \<noteq> 200
                            then \<lparr>reply = caught ax, store = db, calls = [req]\<rparr>
                            else \<lparr>reply = (200, OkTrue),
                                   store = deleteSpaceFromConnectionAndPrune db spaceId b u,
                                   calls = [req]\<rparr>
                        | _ \<Rightarrow> \<lparr>reply = caught ax, store = db, calls = [req]\<rparr>))"

section \<open>Vocabulary of the properties\<close>

text \<open>The orchestrator call failed: a status other than 200, or a rejected promise.\<close>

fun axios_failed :: "axios_result \<Rightarrow> bool" where
  "axios_failed (Resolved status) = (status \<noteq> 200)"
| "axios_failed (ResolvedNoData status) = (status \<noteq> 200)"
| "axios_failed _ = True"


text \<open>The spaces stored for an identity, as \<open>selectConnection\<close> reads them; no row is
  the empty set.\<close>

definition stored_spaces :: "connections \<Rightarrow> string \<Rightarrow> string \<Rightarrow> string set" where
  "stored_spaces db b u =
     (case selectConnection db b u of None \<Rightarrow> {} | Some c \<Rightarrow> set (sc_spaceIds c))"


definition erase_password :: "connection_row \<Rightarrow> connection_row" where
  "erase_password r = r\<lparr>password := []\<rparr>"


text \<open>
  Sequences of operations on one identity \<open>(b, u)\<close>: \<open>Attach clientId password spaceId\<close>
  and \<open>Detach spaceId\<close>, each scheduled with the orchestrator's answer and the clock.
  \<open>run_successful\<close> runs a sequence through a manager and gives the final table when
  every operation replied \<^verbatim>\<open>200 { ok: true }\<close>. \<open>attached_minus_detached\<close> is the
  set the sequence should leave.
\<close>

datatype request = Attach string string string | Detach string

type_synonym scheduled = "request \<times> axios_result \<times> nat"

fun http_step :: "string \<Rightarrow> string \<Rightarrow> string \<Rightarrow> connections \<Rightarrow> scheduled \<Rightarrow> outcome" where
  "http_step a b u db (Attach c p s, ax, now) =
     postConnection a db now ax s (Some (MqttConnection b c u (Some p) None))"
| "http_step a b u db (Detach s, ax, now) = deleteConnection a db ax s u b"

fun provisioning_step ::
  "string \<Rightarrow> string \<Rightarrow> string \<Rightarrow> string \<Rightarrow> connections \<Rightarrow> scheduled \<Rightarrow> outcome" where
  "provisioning_step a t b u db (Attach c p s, ax, now) =
     createMqttConnection a db now ax (MqttConnectionState b c u p) t s"
| "provisioning_step a t b u db (Detach s, ax, now) =
     deleteMqttConnection a db ax (MqttConnectionState b [] u []) t s"

fun run_successful ::
  "(connections \<Rightarrow> scheduled \<Rightarrow> outcome) \<Rightarrow> connections \<Rightarrow> scheduled list \<Rightarrow> connections option" where
  "run_successful step db [] = Some db"
| "run_successful step db (x # xs) =
     (if reply (step db x) = (200, OkTrue) then run_successful step (store (step db x)) xs
      else None)"

fun attached_minus_detached :: "string set \<Rightarrow> request list \<Rightarrow> string set" where
  "attached_minus_detached S [] = S"
| "attached_minus_detached S (Attach c p s # rs) = attached_minus_detached (insert s S) rs"
| "attached_minus_detached S (Detach s # rs) = attached_minus_detached (S - {s}) rs"

text \<open>Concrete data for the closed theorems.\<close>

definition example_row :: "string list \<Rightarrow> connection_row" where
  "example_row spaces =
     \<lparr>broker = ''b1'', client_id = ''c1'', username = ''u1'', password = ''p1'',
      space_ids = spaces, created_at = 0\<rparr>"

definition example_schedule :: "scheduled list" where
  "example_schedule =
     [(Attach ''c1'' ''p1'' ''s1'', Resolved 200, 0),
      (Detach ''s1'', Resolved 200, 1),
      (Attach ''c1'' ''p1'' ''s2'', Resolved 200, 2)]"

section \<open>An attach split at its awaits\<close>

text \<open>
  \<open>postConnection\<close> awaits three times: \<^verbatim>\<open>selectConnection\<close>, the axios request and
  the write (\<^verbatim>\<open>insertConnection\<close> or \<^verbatim>\<open>updateConnectionAssociatedSpaces\<close>). It
  takes no lock, so another request can run between two awaits. \<open>postConnection_decide\<close>
  is the operation up to its last await: the table is read once, the request is sent
  and the write is chosen with its arguments. \<open>commit\<close> makes that write on the
  table as it is then. Run on the same table they are \<open>postConnection\<close>
  (lemma \<open>postConnection_decide_commit\<close>).
\<close>

datatype db_write =
    InsertConnectionArgs string string string string "string list"
  | UpdateConnectionAssociatedSpacesArgs "string list" string string

record decision =
  decided_reply :: "nat \<times> body"
  decided_write :: "db_write option"
  decided_calls :: "http_request list"

fun commit :: "connections \<Rightarrow> nat \<Rightarrow> db_write option \<Rightarrow> connections" where
  "commit db now None = db"
| "commit db now (Some (InsertConnectionArgs b clientId u p spaceIds)) =
     fst (insertConnection db now b clientId u p spaceIds)"
| "commit db now (Some (UpdateConnectionAssociatedSpacesArgs spaceIds b u)) =
     fst (updateConnectionAssociatedSpaces db spaceIds b u)"

definition postConnection_decide ::
  "string \<Rightarrow> connections \<Rightarrow> axios_result \<Rightarrow> string \<Rightarrow> MqttConnection option \<Rightarrow> decision" where
  "postConnection_decide mqttasAddress db ax spaceId mqttConnection =
     (case mqttConnection of
        None \<Rightarrow> \<lparr>decided_reply = (400, ErrorBody ''missing values in request payload''),
                 decided_write = None, decided_calls = []\<rparr>
      | Some m \<Rightarrow>
          if mc_broker m = [] \<or> mc_username m = [] \<or> mc_clientId m = [] \<or> falsy (mc_password m)
          then \<lparr>decided_reply = (400, ErrorBody ''missing values in request payload''),
                 decided_write = None, decided_calls = []\<rparr>
          else
            let b = mc_broker m; u = mc_username m; clientId = mc_clientId m;
                p = (case mc_password m of Some s \<Rightarrow> s | None \<Rightarrow> [])
            in case selectConnection db b u of
                 None \<Rightarrow>
                   (let req = \<lparr>req_method = POST,
                               req_url = mqttasAddress @ ''/connection?space_id='' @ spaceId,
                               req_connection = [(''broker'', b), (''username'', u),
                                                 (''client_id'', clientId), (''password'', p)],
                               req_headers = [(''Content-Type'', ''application/json'')]\<rparr>
                    in case ax of
                         Resolved status \<Rightarrow>
                           if status \<noteq> 200
                           then \<lparr>decided_reply = (404, ErrorBody
                                    ''failed to connect to broker with provided credentials''),
                                  decided_write = None, decided_calls = [req]\<rparr>
                           else \<lparr>decided_reply = (200, OkTrue),
                                  decided_write = Some (InsertConnectionArgs b clientId u p [spaceId]),
                                  decided_calls = [req]\<rparr>
                       | ResolvedNoData status \<Rightarrow>
                           if status \<noteq> 200
                           then \<lparr>decided_reply = caught ax, decided_write = None, decided_calls = [req]\<rparr>
                           else \<lparr>decided_reply = (200, OkTrue),
                                  decided_write = Some (InsertConnectionArgs b clientId u p [spaceId]),
                                  decided_calls = [req]\<rparr>
                       | _ \<Rightarrow> \<lparr>decided_reply = caught ax, decided_write = None, decided_calls = [req]\<rparr>)
               | Some connection \<Rightarrow>
                   if spaceId \<in> set (sc_spaceIds connection)
                   then \<lparr>decided_reply = (200, OkTrue), decided_write = None, decided_calls = []\<rparr>
                   else
                     (let updatedSpaceIds = sc_spaceIds connection @ [spaceId];
                          req = \<lparr>req_method = PUT,
                                 req_url = mqttasAddress @ ''/connection?space_id='' @ spaceId,
                                 req_connection = [(''broker'', b), (''username'', u)],
                                 req_headers = [(''Content-Type'', ''application/json'')]\<rparr>
                      in case ax of
                           Resolved status \<Rightarrow>
                             if status \<noteq> 200
                             then \<lparr>decided_reply = (404, ErrorBody
                                      ''failed to connect to broker with provided credentials''),
                                    decided_write = None, decided_calls = [req]\<rparr>
                             else \<lparr>decided_reply = (200, OkTrue),
                                    decided_write =
                                      Some (UpdateConnectionAssociatedSpacesArgs updatedSpaceIds b u),
                                    decided_calls = [req]\<rparr>
                         | ResolvedNoData status \<Rightarrow>
                             if status \<noteq> 200
                             then \<lparr>decided_reply = caught ax, decided_write = None, decided_calls = [req]\<rparr>
                             else \<lparr>decided_reply = (200, OkTrue),
                                    decided_write =
                                      Some (UpdateConnectionAssociatedSpacesArgs updatedSpaceIds b u),
                                    decided_calls = [req]\<rparr>
                         | _ \<Rightarrow> \<lparr>decided_reply = caught ax, decided_write = None, decided_calls = [req]\<rparr>))"

text \<open>
  Two attaches. \<open>sequential_postConnection\<close>: the second starts when the first has
  returned. \<open>overlapping_postConnection\<close>: both read the table before either writes
  (read 1, read 2, request 1, request 2, write 1, write 2).
\<close>

definition sequential_postConnection ::
  "string \<Rightarrow> connections \<Rightarrow> nat \<Rightarrow> axios_result \<Rightarrow> string \<Rightarrow> MqttConnection option
     \<Rightarrow> nat \<Rightarrow> axios_result \<Rightarrow> string \<Rightarrow> MqttConnection option \<Rightarrow> outcome \<times> outcome" where
  "sequential_postConnection a db now1 ax1 s1 m1 now2 ax2 s2 m2 =
     (let first = postConnection a db now1 ax1 s1 m1;
          second = postConnection a (store first) now2 ax2 s2 m2
      in (first, second))"

definition overlapping_postConnection ::
  "string \<Rightarrow> connections \<Rightarrow> nat \<Rightarrow> axios_result \<Rightarrow> string \<Rightarrow> MqttConnection option
     \<Rightarrow> nat \<Rightarrow> axios_result \<Rightarrow> string \<Rightarrow> MqttConnection option \<Rightarrow> outcome \<times> outcome" where
  "overlapping_postConnection a db now1 ax1 s1 m1 now2 ax2 s2 m2 =
     (let d1 = postConnection_decide a db ax1 s1 m1;
          d2 = postConnection_decide a db ax2 s2 m2;
          db1 = commit db now1 (decided_write d1);
          db2 = commit db1 now2 (decided_write d2)
      in (\<lparr>reply = decided_reply d1, store = db1, calls = decided_calls d1\<rparr>,
          \<lparr>reply = decided_reply d2, store = db2, calls = decided_calls d2\<rparr>))"

definition example_overlap :: "outcome \<times> outcome" where
  "example_overlap =
     overlapping_postConnection ''http://mqttas'' []
       0 (Resolved 200) ''!s1:hs'' (Some (MqttConnection ''b1'' ''c1'' ''u1'' (Some ''p1'') None))
       1 (Resolved 200) ''!s2:hs'' (Some (MqttConnection ''b1'' ''c1'' ''u1'' (Some ''p1'') None))"

section \<open>Lemmas\<close>

subsection \<open>The prune condition\<close>

lemma prune_condition_never: "\<not> prune_condition r"
  by (simp add: prune_condition_def array_length_1_def sql_eq_true_def)

lemma deleteSpaceFromConnectionAndPrune_map:
  "deleteSpaceFromConnectionAndPrune db x b u = map (remove_space x b u) db"
  by (simp add: deleteSpaceFromConnectionAndPrune_def prune_condition_never)

lemma deleteSpaceFromConnectionAndPrune_updated_rows:
  "filter (\<lambda>r. \<not> prune_condition r) (map (remove_space x b u) db)
     = deleteSpaceFromConnectionAndPrune db x b u"
  by (simp add: deleteSpaceFromConnectionAndPrune_def prune_condition_never)

lemma length_deleteSpaceFromConnectionAndPrune:
  "length (deleteSpaceFromConnectionAndPrune db x b u) = length db"
  by (simp add: deleteSpaceFromConnectionAndPrune_map)

subsection \<open>A failed orchestrator call\<close>





subsection \<open>The no-op branch of the attach operations\<close>

lemma postConnection_noop:
  assumes "selectConnection db b u = Some connection" and "spaceId \<in> set (sc_spaceIds connection)"
    and "b \<noteq> []" "u \<noteq> []" "c \<noteq> []" "\<not> falsy p"
  shows "postConnection a db now ax spaceId (Some (MqttConnection b c u p sp))
           = \<lparr>reply = (200, OkTrue), store = db, calls = []\<rparr>"
  using assms by (simp add: postConnection_def Let_def)

lemma createMqttConnection_noop:
  assumes "selectConnection db b u = Some connection" and "spaceId \<in> set (sc_spaceIds connection)"
  shows "createMqttConnection a db now ax (MqttConnectionState b c u pw) t spaceId
           = \<lparr>reply = (200, OkTrue), store = db, calls = []\<rparr>"
proof -
  from assms(2) have "sc_spaceIds connection \<noteq> []" by auto
  with assms show ?thesis by (simp add: createMqttConnection_def Let_def)
qed

subsection \<open>The not-found branches of the detach operations\<close>

lemma deleteConnection_no_row:
  "u \<noteq> [] \<Longrightarrow> b \<noteq> [] \<Longrightarrow> selectConnection db b u = None \<Longrightarrow>
   deleteConnection a db ax spaceId u b
     = \<lparr>reply = (404, ErrorBody (''connection '' @ u @ ''@'' @ b @ '' not found'')), store = db, calls = []\<rparr>"
  by (simp add: deleteConnection_def)

lemma deleteConnection_not_member:
  "u \<noteq> [] \<Longrightarrow> b \<noteq> [] \<Longrightarrow> selectConnection db b u = Some connection \<Longrightarrow>
   spaceId \<notin> set (sc_spaceIds connection) \<Longrightarrow>
   deleteConnection a db ax spaceId u b
     = \<lparr>reply = (404, ErrorBody (''connection '' @ u @ ''@'' @ b @ '' not associated with space '' @ spaceId)),
        store = db, calls = []\<rparr>"
  by (simp add: deleteConnection_def)

lemma deleteMqttConnection_no_row:
  "u \<noteq> [] \<Longrightarrow> b \<noteq> [] \<Longrightarrow> selectConnection db b u = None \<Longrightarrow>
   deleteMqttConnection a db ax (MqttConnectionState b c u pw) t spaceId
     = \<lparr>reply = (404, ErrorBody (''connection '' @ u @ ''@'' @ b @ '' not found'')), store = db, calls = []\<rparr>"
  by (simp add: deleteMqttConnection_def)

lemma deleteMqttConnection_not_member:
  "u \<noteq> [] \<Longrightarrow> b \<noteq> [] \<Longrightarrow> selectConnection db b u = Some connection \<Longrightarrow>
   spaceId \<notin> set (sc_spaceIds connection) \<Longrightarrow>
   deleteMqttConnection a db ax (MqttConnectionState b c u pw) t spaceId
     = \<lparr>reply = (404, ErrorBody (''connection '' @ u @ ''@'' @ b @ '' not associated with space '' @ spaceId)),
        store = db, calls = []\<rparr>"
  by (simp add: deleteMqttConnection_def)

subsection \<open>Columns other than the space list\<close>



lemma insertConnection_conflict: "filter (has_key b u) db \<noteq> [] \<Longrightarrow> insertConnection db now b c u p xs = (db, None)"
  by (simp add: insertConnection_def one_row_def)





subsection \<open>The connections listing\<close>

lemma getConnections_erase_password: "getConnections (map erase_password db) s = getConnections db s"
  by (simp add: getConnections_def selectSpaceConnections_def erase_password_def filter_map o_def Let_def)

lemma getConnections_entries:
  "getConnections db s = (st, MqttClients es) \<Longrightarrow> list_all (\<lambda>e. mc_password e = None \<and> mc_spacesIds e = None) es"
  by (auto simp: getConnections_def Let_def list_all_iff split: if_splits)


subsection \<open>The primary key\<close>

lemma filter_has_key_unique:
  "pk_unique db \<Longrightarrow> filter (has_key b u) db = [] \<or> (\<exists>r. filter (has_key b u) db = [r])"
proof (induction db)
  case Nil
  then show ?case by simp
next
  case (Cons r db)
  then have d: "pk_unique db" and n: "(broker r, username r) \<notin> (\<lambda>r. (broker r, username r)) ` set db"
    by (auto simp: pk_unique_def)
  show ?case
  proof (cases "has_key b u r")
    case True
    with n have "filter (has_key b u) db = []"
      by (force simp: filter_empty_conv has_key_def image_iff)
    with True show ?thesis by simp
  next
    case False
    with Cons.IH[OF d] show ?thesis by simp
  qed
qed

lemma pk_unique_insertConnection: "pk_unique db \<Longrightarrow> pk_unique (fst (insertConnection db now b c u p xs))"
  by (auto simp: insertConnection_def pk_unique_def filter_empty_conv has_key_def)

lemma pk_unique_InsertConnection_sql:
  "pk_unique db \<Longrightarrow> pk_unique (fst (InsertConnection_sql db now b c u p xs))"
proof (cases "filter (has_key b u) db = []")
  case True
  assume "pk_unique db"
  with True show ?thesis
    by (auto simp: InsertConnection_sql_def pk_unique_def filter_empty_conv has_key_def)
next
  case False
  have "map (\<lambda>r. (broker r, username r)) (fst (InsertConnection_sql db now b c u p xs))
          = map (\<lambda>r. (broker r, username r)) db"
    using False by (simp add: InsertConnection_sql_def o_def if_distrib cong: if_cong)
  then show "pk_unique db \<Longrightarrow> ?thesis"
    by (simp add: pk_unique_def)
qed

lemma pk_unique_updateConnectionAssociatedSpaces:
  "pk_unique db \<Longrightarrow> pk_unique (fst (updateConnectionAssociatedSpaces db xs b u))"
proof -
  have "map (\<lambda>r. (broker r, username r)) (fst (updateConnectionAssociatedSpaces db xs b u))
          = map (\<lambda>r. (broker r, username r)) db"
    by (simp add: updateConnectionAssociatedSpaces_def o_def if_distrib cong: if_cong)
  then show "pk_unique db \<Longrightarrow> ?thesis" by (simp add: pk_unique_def)
qed

lemma pk_unique_deleteSpaceFromConnectionAndPrune:
  "pk_unique db \<Longrightarrow> pk_unique (deleteSpaceFromConnectionAndPrune db x b u)"
proof -
  have "map (\<lambda>r. (broker r, username r)) (deleteSpaceFromConnectionAndPrune db x b u)
          = map (\<lambda>r. (broker r, username r)) db"
    by (simp add: deleteSpaceFromConnectionAndPrune_map remove_space_def o_def if_distrib cong: if_cong)
  then show "pk_unique db \<Longrightarrow> ?thesis" by (simp add: pk_unique_def)
qed

lemma pk_unique_postConnection: "pk_unique db \<Longrightarrow> pk_unique (store (postConnection a db now ax s m))"
  by (cases ax) (auto simp: postConnection_def Let_def pk_unique_insertConnection
        pk_unique_updateConnectionAssociatedSpaces split: option.splits)

lemma pk_unique_deleteConnection: "pk_unique db \<Longrightarrow> pk_unique (store (deleteConnection a db ax s u b))"
  by (cases ax) (auto simp: deleteConnection_def Let_def pk_unique_deleteSpaceFromConnectionAndPrune
        split: option.splits)

lemma pk_unique_createMqttConnection:
  "pk_unique db \<Longrightarrow> pk_unique (store (createMqttConnection a db now ax m t s))"
  by (cases ax) (auto simp: createMqttConnection_def Let_def pk_unique_insertConnection
        pk_unique_updateConnectionAssociatedSpaces split: option.splits)

lemma pk_unique_deleteMqttConnection:
  "pk_unique db \<Longrightarrow> pk_unique (store (deleteMqttConnection a db ax m t s))"
  by (cases ax) (auto simp: deleteMqttConnection_def Let_def pk_unique_deleteSpaceFromConnectionAndPrune
        split: option.splits)

subsection \<open>Reading a row after a write\<close>

lemma selectConnection_None_filter:
  "pk_unique db \<Longrightarrow> selectConnection db b u = None \<Longrightarrow> filter (has_key b u) db = []"
  using filter_has_key_unique[of db b u] by (auto simp: selectConnection_def one_row_def)

lemma selectConnection_insertConnection:
  "filter (has_key b u) db = [] \<Longrightarrow>
   selectConnection (fst (insertConnection db now b c u p xs)) b u = Some (SelectConnectionRow b c u xs)"
  by (simp add: insertConnection_def selectConnection_def one_row_def has_key_def)

lemma filter_has_key_map:
  "(\<And>r. has_key b u (f r) = has_key b u r) \<Longrightarrow> filter (has_key b u) (map f db) = map f (filter (has_key b u) db)"
  by (simp add: filter_map o_def)

lemma selectConnection_updateConnectionAssociatedSpaces:
  "selectConnection db b u = Some connection \<Longrightarrow>
   selectConnection (fst (updateConnectionAssociatedSpaces db xs b u)) b u
     = Some (SelectConnectionRow (sc_broker connection) (sc_clientId connection) (sc_username connection) xs)"
proof -
  assume a: "selectConnection db b u = Some connection"
  then obtain r where r: "filter (has_key b u) db = [r]"
    by (auto simp: selectConnection_def one_row_def split: list.splits)
  then have k: "has_key b u r"
    by (metis filter_eq_ConsD)
  have "filter (has_key b u) (map (\<lambda>r. if has_key b u r then r\<lparr>space_ids := xs\<rparr> else r) db)
          = map (\<lambda>r. if has_key b u r then r\<lparr>space_ids := xs\<rparr> else r) (filter (has_key b u) db)"
    by (rule filter_has_key_map) (simp add: has_key_def)
  with r a k show ?thesis
    by (auto simp: selectConnection_def one_row_def updateConnectionAssociatedSpaces_def)
qed

lemma selectConnection_deleteSpaceFromConnectionAndPrune:
  "selectConnection db b u = Some connection \<Longrightarrow>
   selectConnection (deleteSpaceFromConnectionAndPrune db x b u) b u
     = Some (SelectConnectionRow (sc_broker connection) (sc_clientId connection) (sc_username connection)
              (array_remove (sc_spaceIds connection) x))"
proof -
  assume a: "selectConnection db b u = Some connection"
  then obtain r where r: "filter (has_key b u) db = [r]"
    by (auto simp: selectConnection_def one_row_def split: list.splits)
  then have k: "has_key b u r"
    by (metis filter_eq_ConsD)
  have "filter (has_key b u) (map (remove_space x b u) db)
          = map (remove_space x b u) (filter (has_key b u) db)"
    by (rule filter_has_key_map) (simp add: has_key_def remove_space_def)
  with r a k show ?thesis
    by (auto simp: selectConnection_def one_row_def deleteSpaceFromConnectionAndPrune_map remove_space_def)
qed

lemma detach_last_space_row_remains:
  assumes "selectConnection db b u = Some connection" and "set (sc_spaceIds connection) = {s}"
    and "u \<noteq> []" and "b \<noteq> []"
  shows "selectConnection (store (deleteConnection a db (Resolved 200) s u b)) b u
           = Some (SelectConnectionRow (sc_broker connection) (sc_clientId connection) (sc_username connection) [])"
proof -
  from assms(2) have "array_remove (sc_spaceIds connection) s = []"
    by (auto simp: array_remove_def filter_empty_conv)
  with assms show ?thesis
    by (simp add: deleteConnection_def Let_def selectConnection_deleteSpaceFromConnectionAndPrune)
qed


subsection \<open>Membership in the HTTP manager\<close>

lemma set_array_remove: "set (array_remove xs x) = set xs - {x}"
  by (auto simp: array_remove_def)

lemma postConnection_membership:
  assumes "pk_unique db"
    and "reply (postConnection a db now ax s (Some (MqttConnection b c u p sp))) = (200, OkTrue)"
  shows "stored_spaces (store (postConnection a db now ax s (Some (MqttConnection b c u p sp)))) b u
           = insert s (stored_spaces db b u)"
proof (cases "selectConnection db b u")
  case None
  have "filter (has_key b u) db = []"
    using selectConnection_None_filter[OF assms(1) None] .
  with None assms(2) show ?thesis
    by (cases ax)
       (auto simp: postConnection_def Let_def stored_spaces_def selectConnection_insertConnection
             split: if_splits)
next
  case (Some connection)
  with assms(2) show ?thesis
    by (cases ax)
       (auto simp: postConnection_def Let_def stored_spaces_def
                   selectConnection_updateConnectionAssociatedSpaces split: if_splits)
qed

lemma deleteConnection_membership:
  assumes "reply (deleteConnection a db ax s u b) = (200, OkTrue)"
  shows "stored_spaces (store (deleteConnection a db ax s u b)) b u = stored_spaces db b u - {s}"
proof (cases "selectConnection db b u")
  case None
  with assms show ?thesis
    by (auto simp: deleteConnection_def split: if_splits)
next
  case (Some connection)
  with assms show ?thesis
    by (cases ax)
       (auto simp: deleteConnection_def Let_def stored_spaces_def set_array_remove
                   selectConnection_deleteSpaceFromConnectionAndPrune split: if_splits)
qed

lemma http_step_membership:
  "pk_unique db \<Longrightarrow> reply (http_step a b u db x) = (200, OkTrue) \<Longrightarrow>
   stored_spaces (store (http_step a b u db x)) b u
     = attached_minus_detached (stored_spaces db b u) [fst x]"
proof (cases x)
  case (fields rq ax now)
  assume "pk_unique db" "reply (http_step a b u db x) = (200, OkTrue)"
  with fields show ?thesis
    by (cases rq) (simp_all add: postConnection_membership deleteConnection_membership)
qed

lemma pk_unique_http_step: "pk_unique db \<Longrightarrow> pk_unique (store (http_step a b u db x))"
proof (cases x)
  case (fields rq ax now)
  assume "pk_unique db"
  with fields show ?thesis
    by (cases rq) (simp_all add: pk_unique_postConnection pk_unique_deleteConnection)
qed

lemma attached_minus_detached_Cons:
  "attached_minus_detached S (r # rs) = attached_minus_detached (attached_minus_detached S [r]) rs"
  by (cases r) simp_all

lemma http_manager_membership_algebra:
  "pk_unique db \<Longrightarrow> run_successful (http_step a b u) db xs = Some db' \<Longrightarrow>
   stored_spaces db' b u = attached_minus_detached (stored_spaces db b u) (map fst xs)"
proof (induction xs arbitrary: db)
  case Nil
  then show ?case by simp
next
  case (Cons x xs)
  from Cons.prems(2) have ok: "reply (http_step a b u db x) = (200, OkTrue)"
    and rest: "run_successful (http_step a b u) (store (http_step a b u db x)) xs = Some db'"
    by (auto split: if_splits)
  have "stored_spaces db' b u
          = attached_minus_detached (stored_spaces (store (http_step a b u db x)) b u) (map fst xs)"
    using Cons.IH[OF pk_unique_http_step[OF Cons.prems(1)] rest] .
  also have "stored_spaces (store (http_step a b u db x)) b u
               = attached_minus_detached (stored_spaces db b u) [fst x]"
    using http_step_membership[OF Cons.prems(1) ok] .
  finally show ?case
    using attached_minus_detached_Cons[of "stored_spaces db b u" "fst x" "map fst xs"] by simp
qed



subsection \<open>The associate branch of the attach operations\<close>

lemma postConnection_associate_store:
  assumes "selectConnection db b u = Some connection" and "spaceId \<notin> set (sc_spaceIds connection)"
    and "b \<noteq> []" "u \<noteq> []" "c \<noteq> []" "p \<noteq> []"
  shows "store (postConnection a db now (Resolved 200) spaceId
                  (Some (MqttConnection b c u (Some p) sp)))
           = fst (updateConnectionAssociatedSpaces db (sc_spaceIds connection @ [spaceId]) b u)"
  using assms by (simp add: postConnection_def Let_def falsy_def)

lemma createMqttConnection_associate_store:
  assumes "selectConnection db b u = Some connection" and "spaceId \<notin> set (sc_spaceIds connection)"
    and "sc_spaceIds connection \<noteq> []"
  shows "store (createMqttConnection a db now (Resolved 200) (MqttConnectionState b c u p) t spaceId)
           = fst (updateConnectionAssociatedSpaces db (sc_spaceIds connection @ [spaceId]) b u)"
  using assms by (simp add: createMqttConnection_def Let_def)

subsection \<open>Evaluations on the example data\<close>

lemma example_detach_http:
  "deleteConnection ''http://mqttas'' [example_row [''s1'']] (Resolved 200) ''s1'' ''u1'' ''b1''
     = \<lparr>reply = (200, OkTrue), store = [example_row []],
        calls = [\<lparr>req_method = DELETE,
                  req_url = ''http://mqttas/connection?space_id=s1&username=u1&broker=b1'',
                  req_connection = [],
                  req_headers = [(''Content-Type'', ''application/json'')]\<rparr>]\<rparr>"
  by code_simp

lemma example_detach_provisioning:
  "deleteMqttConnection ''http://mqttas'' [example_row [''s1'']] (Resolved 200)
       (MqttConnectionState ''b1'' ''c1'' ''u1'' []) ''token'' ''s1''
     = \<lparr>reply = (200, OkTrue), store = [example_row []],
        calls = [\<lparr>req_method = DELETE,
                  req_url = ''http://mqttas/connection?space_id=s1&username=u1&broker=b1'',
                  req_connection = [],
                  req_headers = [(''Content-Type'', ''application/json''),
                                 (''Authorization'', ''Bearer token'')]\<rparr>]\<rparr>"
  by code_simp

lemma example_select:
  "selectConnection [example_row xs] ''b1'' ''u1'' = Some (SelectConnectionRow ''b1'' ''c1'' ''u1'' xs)"
  by (simp add: selectConnection_def one_row_def has_key_def example_row_def)

lemma example_run_provisioning:
  "run_successful (provisioning_step ''http://mqttas'' ''token'' ''b1'' ''u1'') [] example_schedule
     = Some [example_row []]"
  by code_simp

lemma example_insert_conflict:
  "fst (insertConnection [example_row [''s1'']] 1 ''b1'' ''c1'' ''u1'' ''p1'' [''s2''])
     = [example_row [''s1'']]"
  by code_simp

lemma example_stale_write:
  "fst (updateConnectionAssociatedSpaces [example_row [''s1'', ''s3'']] ([''s1''] @ [''s2''])
          ''b1'' ''u1'')
     = [example_row [''s1'', ''s2'']]"
  by code_simp

lemma example_insert_sql_conflict:
  "fst (InsertConnection_sql [example_row []] 2 ''b1'' ''c1'' ''u1'' ''p1'' [''s2''])
     = [example_row [''s2'']]"
  by code_simp

lemma example_insert_generated_conflict:
  "fst (insertConnection [example_row []] 2 ''b1'' ''c1'' ''u1'' ''p1'' [''s2''])
     = [example_row []]"
  by code_simp

lemma sequential_attaches_one_create_one_associate:
  "map req_method
     (calls (postConnection ''http://mqttas'' [] 0 (Resolved 200) ''s1''
               (Some (MqttConnection ''b1'' ''c1'' ''u1'' (Some ''p1'') None)))
      @ calls (postConnection ''http://mqttas''
                 (store (postConnection ''http://mqttas'' [] 0 (Resolved 200) ''s1''
                           (Some (MqttConnection ''b1'' ''c1'' ''u1'' (Some ''p1'') None))))
                 1 (Resolved 200) ''s2''
                 (Some (MqttConnection ''b1'' ''c1'' ''u1'' (Some ''p1'') None))))
     = [POST, PUT]"
  by code_simp






lemma example_attach_other_credentials_provisioning:
  "createMqttConnection ''http://mqttas'' [example_row [''s1'']] 3 (Resolved 200)
       (MqttConnectionState ''b1'' ''c2'' ''u1'' ''p2'') ''token'' ''s2''
     = \<lparr>reply = (200, OkTrue), store = [example_row [''s1'', ''s2'']],
        calls = [\<lparr>req_method = PUT, req_url = ''http://mqttas/connection?space_id=s2'',
                  req_connection = [(''broker'', ''b1''), (''username'', ''u1'')],
                  req_headers = [(''Content-Type'', ''application/json''),
                                 (''Authorization'', ''Bearer token'')]\<rparr>]\<rparr>"
  by code_simp

subsection \<open>Two attaches for an identity without a row\<close>

lemma postConnection_decide_commit:
  "postConnection a db now ax s m
     = \<lparr>reply = decided_reply (postConnection_decide a db ax s m),
        store = commit db now (decided_write (postConnection_decide a db ax s m)),
        calls = decided_calls (postConnection_decide a db ax s m)\<rparr>"
  by (cases ax) (auto simp: postConnection_def postConnection_decide_def Let_def split: option.splits)

lemma selectConnection_no_row: "filter (has_key b u) db = [] \<Longrightarrow> selectConnection db b u = None"
  by (simp add: selectConnection_def one_row_def)

lemma succeeded_cases:
  "\<not> axios_failed ax \<Longrightarrow> ax = Resolved 200 \<or> ax = ResolvedNoData 200"
  by (cases ax) auto

lemma postConnection_create:
  assumes "filter (has_key b u) db = []" and "b \<noteq> []" "u \<noteq> []" "c \<noteq> []" "p \<noteq> []"
    and "\<not> axios_failed ax"
  shows "postConnection a db now ax s (Some (MqttConnection b c u (Some p) sp))
           = \<lparr>reply = (200, OkTrue),
              store = fst (insertConnection db now b c u p [s]),
              calls = [\<lparr>req_method = POST, req_url = a @ ''/connection?space_id='' @ s,
                        req_connection = [(''broker'', b), (''username'', u),
                                          (''client_id'', c), (''password'', p)],
                        req_headers = [(''Content-Type'', ''application/json'')]\<rparr>]\<rparr>"
  using succeeded_cases[OF assms(6)] assms(1-5) selectConnection_no_row[OF assms(1)]
  by (auto simp: postConnection_def Let_def falsy_def)

lemma postConnection_associate:
  assumes "selectConnection db b u = Some connection" and "s \<notin> set (sc_spaceIds connection)"
    and "b \<noteq> []" "u \<noteq> []" "c \<noteq> []" "p \<noteq> []" and "\<not> axios_failed ax"
  shows "postConnection a db now ax s (Some (MqttConnection b c u (Some p) sp))
           = \<lparr>reply = (200, OkTrue),
              store = fst (updateConnectionAssociatedSpaces db (sc_spaceIds connection @ [s]) b u),
              calls = [\<lparr>req_method = PUT, req_url = a @ ''/connection?space_id='' @ s,
                        req_connection = [(''broker'', b), (''username'', u)],
                        req_headers = [(''Content-Type'', ''application/json'')]\<rparr>]\<rparr>"
  using succeeded_cases[OF assms(7)] assms(1-6)
  by (auto simp: postConnection_def Let_def falsy_def)

lemma postConnection_decide_create:
  assumes "filter (has_key b u) db = []" and "b \<noteq> []" "u \<noteq> []" "c \<noteq> []" "p \<noteq> []"
    and "\<not> axios_failed ax"
  shows "postConnection_decide a db ax s (Some (MqttConnection b c u (Some p) sp))
           = \<lparr>decided_reply = (200, OkTrue),
              decided_write = Some (InsertConnectionArgs b c u p [s]),
              decided_calls = [\<lparr>req_method = POST, req_url = a @ ''/connection?space_id='' @ s,
                        req_connection = [(''broker'', b), (''username'', u),
                                          (''client_id'', c), (''password'', p)],
                        req_headers = [(''Content-Type'', ''application/json'')]\<rparr>]\<rparr>"
  using succeeded_cases[OF assms(6)] assms(1-5) selectConnection_no_row[OF assms(1)]
  by (auto simp: postConnection_decide_def Let_def falsy_def)

lemma filter_has_key_insertConnection:
  "filter (has_key b u) (fst (insertConnection db now b c u p xs)) \<noteq> []"
  by (simp add: insertConnection_def has_key_def)

lemma overlapping_attaches:
  assumes "filter (has_key b u) db = []"
    and "b \<noteq> []" "u \<noteq> []" "c1 \<noteq> []" "p1 \<noteq> []" "c2 \<noteq> []" "p2 \<noteq> []"
    and "\<not> axios_failed ax1" "\<not> axios_failed ax2"
  shows "map req_method
           (calls (fst (overlapping_postConnection a db
                     now1 ax1 s1 (Some (MqttConnection b c1 u (Some p1) sp1))
                     now2 ax2 s2 (Some (MqttConnection b c2 u (Some p2) sp2))))
            @ calls (snd (overlapping_postConnection a db
                     now1 ax1 s1 (Some (MqttConnection b c1 u (Some p1) sp1))
                     now2 ax2 s2 (Some (MqttConnection b c2 u (Some p2) sp2)))))
           = [POST, POST]
         \<and> reply (fst (overlapping_postConnection a db
                     now1 ax1 s1 (Some (MqttConnection b c1 u (Some p1) sp1))
                     now2 ax2 s2 (Some (MqttConnection b c2 u (Some p2) sp2)))) = (200, OkTrue)
         \<and> reply (snd (overlapping_postConnection a db
                     now1 ax1 s1 (Some (MqttConnection b c1 u (Some p1) sp1))
                     now2 ax2 s2 (Some (MqttConnection b c2 u (Some p2) sp2)))) = (200, OkTrue)
         \<and> stored_spaces (store (snd (overlapping_postConnection a db
                     now1 ax1 s1 (Some (MqttConnection b c1 u (Some p1) sp1))
                     now2 ax2 s2 (Some (MqttConnection b c2 u (Some p2) sp2))))) b u = {s1}"
proof -
  let ?db1 = "fst (insertConnection db now1 b c1 u p1 [s1])"
  have d1: "postConnection_decide a db ax1 s1 (Some (MqttConnection b c1 u (Some p1) sp1))
           = \<lparr>decided_reply = (200, OkTrue),
              decided_write = Some (InsertConnectionArgs b c1 u p1 [s1]),
              decided_calls = [\<lparr>req_method = POST, req_url = a @ ''/connection?space_id='' @ s1,
                        req_connection = [(''broker'', b), (''username'', u),
                                          (''client_id'', c1), (''password'', p1)],
                        req_headers = [(''Content-Type'', ''application/json'')]\<rparr>]\<rparr>"
    using assms by (simp add: postConnection_decide_create)
  have d2: "postConnection_decide a db ax2 s2 (Some (MqttConnection b c2 u (Some p2) sp2))
           = \<lparr>decided_reply = (200, OkTrue),
              decided_write = Some (InsertConnectionArgs b c2 u p2 [s2]),
              decided_calls = [\<lparr>req_method = POST, req_url = a @ ''/connection?space_id='' @ s2,
                        req_connection = [(''broker'', b), (''username'', u),
                                          (''client_id'', c2), (''password'', p2)],
                        req_headers = [(''Content-Type'', ''application/json'')]\<rparr>]\<rparr>"
    using assms by (simp add: postConnection_decide_create)
  have dropped: "fst (insertConnection ?db1 now2 b c2 u p2 [s2]) = ?db1"
    by (simp add: insertConnection_conflict filter_has_key_insertConnection)
  have "stored_spaces ?db1 b u = {s1}"
    using selectConnection_insertConnection[OF assms(1), of now1 c1 p1 "[s1]"]
    by (simp add: stored_spaces_def)
  with d1 d2 dropped show ?thesis
    by (simp add: overlapping_postConnection_def Let_def)
qed


lemma example_overlap_outcomes:
  "example_overlap =
     (\<lparr>reply = (200, OkTrue), store = [example_row [''!s1:hs'']],
       calls = [\<lparr>req_method = POST, req_url = ''http://mqttas/connection?space_id=!s1:hs'',
                 req_connection = [(''broker'', ''b1''), (''username'', ''u1''),
                                   (''client_id'', ''c1''), (''password'', ''p1'')],
                 req_headers = [(''Content-Type'', ''application/json'')]\<rparr>]\<rparr>,
      \<lparr>reply = (200, OkTrue), store = [example_row [''!s1:hs'']],
       calls = [\<lparr>req_method = POST, req_url = ''http://mqttas/connection?space_id=!s2:hs'',
                 req_connection = [(''broker'', ''b1''), (''username'', ''u1''),
                                   (''client_id'', ''c1''), (''password'', ''p1'')],
                 req_headers = [(''Content-Type'', ''application/json'')]\<rparr>]\<rparr>)"
  by code_simp

section \<open>The claims\<close>

text \<open>
  C1. A row exists iff its space list is non-empty; detaching the only space of a
  connection deletes the row, and a later read of the identity finds nothing.

  The code does not do this. \<open>deleteSpaceFromConnectionAndPrune\<close> removes the space from
  the list and deletes nothing, because \<^verbatim>\<open>ARRAY_LENGTH(space_ids, 1) = 0\<close> holds of no
  row (\<open>prune_condition_never\<close>, \<open>length_deleteSpaceFromConnectionAndPrune\<close>). On the
  table with the single row \<open>(b1, u1)\<close> and spaces \<open>[s1]\<close>, detaching \<open>s1\<close> with the
  orchestrator answering 200 replies \<^verbatim>\<open>200 { ok: true }\<close> in both managers and leaves
  the row with an empty list, which \<open>selectConnection\<close> still returns.
  (\<open>detach_last_space_row_remains\<close> is the general statement.)
\<close>

theorem C1_last_detach_leaves_row:
  "reply (deleteConnection ''http://mqttas'' [example_row [''s1'']] (Resolved 200)
            ''s1'' ''u1'' ''b1'') = (200, OkTrue)
   \<and> store (deleteConnection ''http://mqttas'' [example_row [''s1'']] (Resolved 200)
              ''s1'' ''u1'' ''b1'') = [example_row []]
   \<and> reply (deleteMqttConnection ''http://mqttas'' [example_row [''s1'']] (Resolved 200)
              (MqttConnectionState ''b1'' ''c1'' ''u1'' []) ''token'' ''s1'') = (200, OkTrue)
   \<and> store (deleteMqttConnection ''http://mqttas'' [example_row [''s1'']] (Resolved 200)
              (MqttConnectionState ''b1'' ''c1'' ''u1'' []) ''token'' ''s1'') = [example_row []]
   \<and> selectConnection [example_row []] ''b1'' ''u1''
       = Some (SelectConnectionRow ''b1'' ''c1'' ''u1'' [])"
  by (simp add: example_detach_http example_detach_provisioning example_select)

text \<open>
  C2. After any sequence of attach and detach operations that all report success, the
  stored spaces of an identity are those attached minus those detached afterwards.

  The provisioning manager breaks this. Attach \<open>s1\<close>, detach \<open>s1\<close>, attach \<open>s2\<close> on the
  empty table, the orchestrator answering 200 each time: the three operations reply
  \<^verbatim>\<open>200 { ok: true }\<close>, the set to be stored is \<open>{s2}\<close>, and the stored set is empty.
  The detach leaves the row with an empty list (C1); the second attach takes the
  \<open>initialise\<close> branch and its \<open>insertConnection\<close> meets the conflict clause
  \<^verbatim>\<open>DO NOTHING\<close> (\<open>example_insert_generated_conflict\<close>). The statement in
  src/db/queries.sql would store \<open>[s2]\<close> (\<open>example_insert_sql_conflict\<close>), and the
  HTTP manager keeps the property (\<open>http_manager_membership_algebra\<close>).
\<close>

theorem C2_reattach_after_last_detach_lost:
  "run_successful (provisioning_step ''http://mqttas'' ''token'' ''b1'' ''u1'') [] example_schedule
     = Some [example_row []]
   \<and> stored_spaces [example_row []] ''b1'' ''u1'' = {}
   \<and> attached_minus_detached {} (map fst example_schedule) = {''s2''}"
proof -
  have "stored_spaces [example_row []] ''b1'' ''u1'' = {}"
    by (simp add: stored_spaces_def example_select)
  moreover have "attached_minus_detached {} (map fst example_schedule) = {''s2''}"
    by (simp add: example_schedule_def)
  ultimately show ?thesis
    using example_run_provisioning by simp
qed

text \<open>
  C3. The store primitive behind an attach creates a row with the single space when the
  identity has no row, and unions the space into an existing row in one store mutation,
  not by a read of the space list and a separate write of it.

  The first half holds of \<open>insertConnection\<close>. The second half does not hold of the
  code: \<open>insertConnection\<close> on an existing row changes nothing, and the space is added
  by \<open>updateConnectionAssociatedSpaces\<close>, which stores the list it is given. On a row
  that holds \<open>[s1, s3]\<close>, writing the list \<open>[s1] @ [s2]\<close> built from an earlier read
  leaves \<open>[s1, s2]\<close>.
\<close>

theorem C3_insert_on_existing_row_is_no_union:
  "stored_spaces (fst (insertConnection [example_row [''s1'']] 1 ''b1'' ''c1'' ''u1'' ''p1'' [''s2'']))
       ''b1'' ''u1''
     \<noteq> stored_spaces [example_row [''s1'']] ''b1'' ''u1'' \<union> {''s2''}
   \<and> stored_spaces (fst (updateConnectionAssociatedSpaces [example_row [''s1'', ''s3'']]
                            ([''s1''] @ [''s2'']) ''b1'' ''u1'')) ''b1'' ''u1''
     \<noteq> stored_spaces [example_row [''s1'', ''s3'']] ''b1'' ''u1'' \<union> {''s2''}"
proof -
  have before: "stored_spaces [example_row xs] ''b1'' ''u1'' = set xs" for xs
    by (simp add: stored_spaces_def example_select)
  have "stored_spaces (fst (insertConnection [example_row [''s1'']] 1 ''b1'' ''c1'' ''u1'' ''p1''
                              [''s2''])) ''b1'' ''u1'' = set [''s1'']"
    by (simp only: example_insert_conflict before)
  then have "''s2'' \<notin> stored_spaces (fst (insertConnection [example_row [''s1'']] 1 ''b1'' ''c1''
                                           ''u1'' ''p1'' [''s2''])) ''b1'' ''u1''"
    by simp
  then have first: "stored_spaces (fst (insertConnection [example_row [''s1'']] 1 ''b1'' ''c1'' ''u1''
                                     ''p1'' [''s2''])) ''b1'' ''u1''
                      \<noteq> stored_spaces [example_row [''s1'']] ''b1'' ''u1'' \<union> {''s2''}"
    by blast
  have "stored_spaces (fst (updateConnectionAssociatedSpaces [example_row [''s1'', ''s3'']]
                            ([''s1''] @ [''s2'']) ''b1'' ''u1'')) ''b1'' ''u1'' = set [''s1'', ''s2'']"
    by (simp only: example_stale_write before)
  then have "''s3'' \<notin> stored_spaces (fst (updateConnectionAssociatedSpaces
                 [example_row [''s1'', ''s3'']] ([''s1''] @ [''s2'']) ''b1'' ''u1'')) ''b1'' ''u1''"
    by simp
  moreover have "''s3'' \<in> stored_spaces [example_row [''s1'', ''s3'']] ''b1'' ''u1''"
    by (simp add: before)
  ultimately have second: "stored_spaces (fst (updateConnectionAssociatedSpaces
                 [example_row [''s1'', ''s3'']] ([''s1''] @ [''s2'']) ''b1'' ''u1'')) ''b1'' ''u1''
               \<noteq> stored_spaces [example_row [''s1'', ''s3'']] ''b1'' ''u1'' \<union> {''s2''}"
    by blast
  from first second show ?thesis by (rule conjI)
qed

text \<open>
  C3, as the code has it. \<open>insertConnection\<close> creates the row with the single space
  when the identity has no row and leaves the table unchanged when it has one.
  \<open>updateConnectionAssociatedSpaces\<close> replaces the space list of an existing row by
  the list supplied. On the associate branch both managers store what that statement
  gives for the list read by \<open>selectConnection\<close> with the new space appended.
\<close>

theorem C3_insert_creates_update_overwrites:
  "(filter (has_key b u) db = [] \<longrightarrow>
      selectConnection (fst (insertConnection db now b c u p [spaceId])) b u
        = Some (SelectConnectionRow b c u [spaceId]))
   \<and> (filter (has_key b u) db \<noteq> [] \<longrightarrow> fst (insertConnection db now b c u p [spaceId]) = db)
   \<and> (selectConnection db b u = Some connection \<longrightarrow>
        selectConnection (fst (updateConnectionAssociatedSpaces db xs b u)) b u
          = Some (SelectConnectionRow (sc_broker connection) (sc_clientId connection)
                    (sc_username connection) xs))
   \<and> (selectConnection db b u = Some connection \<and> spaceId \<notin> set (sc_spaceIds connection)
        \<and> b \<noteq> [] \<and> u \<noteq> [] \<and> c \<noteq> [] \<and> p \<noteq> [] \<longrightarrow>
        store (postConnection a db now (Resolved 200) spaceId
                 (Some (MqttConnection b c u (Some p) sp)))
          = fst (updateConnectionAssociatedSpaces db (sc_spaceIds connection @ [spaceId]) b u))
   \<and> (selectConnection db b u = Some connection \<and> spaceId \<notin> set (sc_spaceIds connection)
        \<and> sc_spaceIds connection \<noteq> [] \<longrightarrow>
        store (createMqttConnection a db now (Resolved 200) (MqttConnectionState b c u p) t spaceId)
          = fst (updateConnectionAssociatedSpaces db (sc_spaceIds connection @ [spaceId]) b u))"
  by (simp add: selectConnection_insertConnection insertConnection_conflict
        selectConnection_updateConnectionAssociatedSpaces postConnection_associate_store
        createMqttConnection_associate_store)

theorem C3_insert_creates_update_overwrites_witness:
  "filter (has_key ''b1'' ''u1'') [] = []
   \<and> selectConnection (fst (insertConnection [] 0 ''b1'' ''c1'' ''u1'' ''p1'' [''s1''])) ''b1'' ''u1''
       = Some (SelectConnectionRow ''b1'' ''c1'' ''u1'' [''s1''])
   \<and> filter (has_key ''b1'' ''u1'') [example_row [''s1'']] \<noteq> []
   \<and> fst (insertConnection [example_row [''s1'']] 0 ''b1'' ''c1'' ''u1'' ''p1'' [''s2''])
       = [example_row [''s1'']]
   \<and> selectConnection [example_row [''s1'']] ''b1'' ''u1''
       = Some (SelectConnectionRow ''b1'' ''c1'' ''u1'' [''s1''])
   \<and> ''s2'' \<notin> set [''s1'']
   \<and> selectConnection (fst (updateConnectionAssociatedSpaces [example_row [''s1'']] [''s9'']
                               ''b1'' ''u1'')) ''b1'' ''u1''
       = Some (SelectConnectionRow ''b1'' ''c1'' ''u1'' [''s9''])
   \<and> store (postConnection ''http://mqttas'' [example_row [''s1'']] 0 (Resolved 200) ''s2''
               (Some (MqttConnection ''b1'' ''c1'' ''u1'' (Some ''p1'') None)))
       = fst (updateConnectionAssociatedSpaces [example_row [''s1'']] ([''s1''] @ [''s2''])
                ''b1'' ''u1'')
   \<and> store (createMqttConnection ''http://mqttas'' [example_row [''s1'']] 0 (Resolved 200)
               (MqttConnectionState ''b1'' ''c1'' ''u1'' ''p1'') ''token'' ''s2'')
       = fst (updateConnectionAssociatedSpaces [example_row [''s1'']] ([''s1''] @ [''s2''])
                ''b1'' ''u1'')"
proof -
  have sel: "selectConnection [example_row [''s1'']] ''b1'' ''u1''
               = Some (SelectConnectionRow ''b1'' ''c1'' ''u1'' [''s1''])"
    by (rule example_select)
  have key: "filter (has_key ''b1'' ''u1'') [example_row [''s1'']] \<noteq> []"
    by (simp add: has_key_def example_row_def)
  note absent = C3_insert_creates_update_overwrites
    [where db = "[]" and b = "''b1''" and u = "''u1''" and c = "''c1''" and p = "''p1''"
       and spaceId = "''s1''" and now = 0]
  note present = C3_insert_creates_update_overwrites
    [where db = "[example_row [''s1'']]" and b = "''b1''" and u = "''u1''" and c = "''c1''"
       and p = "''p1''" and spaceId = "''s2''" and now = 0 and xs = "[''s9'']"
       and connection = "SelectConnectionRow ''b1'' ''c1'' ''u1'' [''s1'']"
       and a = "''http://mqttas''" and sp = None and t = "''token''"]
  from absent have "selectConnection (fst (insertConnection [] 0 ''b1'' ''c1'' ''u1'' ''p1'' [''s1''])) ''b1'' ''u1''
       = Some (SelectConnectionRow ''b1'' ''c1'' ''u1'' [''s1''])" by simp
  moreover from present sel key have
    "fst (insertConnection [example_row [''s1'']] 0 ''b1'' ''c1'' ''u1'' ''p1'' [''s2''])
       = [example_row [''s1'']]"
    "selectConnection (fst (updateConnectionAssociatedSpaces [example_row [''s1'']] [''s9'']
                               ''b1'' ''u1'')) ''b1'' ''u1''
       = Some (SelectConnectionRow ''b1'' ''c1'' ''u1'' [''s9''])"
    "store (postConnection ''http://mqttas'' [example_row [''s1'']] 0 (Resolved 200) ''s2''
               (Some (MqttConnection ''b1'' ''c1'' ''u1'' (Some ''p1'') None)))
       = fst (updateConnectionAssociatedSpaces [example_row [''s1'']] ([''s1''] @ [''s2''])
                ''b1'' ''u1'')"
    "store (createMqttConnection ''http://mqttas'' [example_row [''s1'']] 0 (Resolved 200)
               (MqttConnectionState ''b1'' ''c1'' ''u1'' ''p1'') ''token'' ''s2'')
       = fst (updateConnectionAssociatedSpaces [example_row [''s1'']] ([''s1''] @ [''s2''])
                ''b1'' ''u1'')"
    by simp_all
  ultimately show ?thesis using sel key by simp
qed





text \<open>
  C5. Attaching a space that the connection already holds replies
  \<^verbatim>\<open>200 { ok: true }\<close>, calls the orchestrator not at all and leaves the table
  unchanged. \<open>createMqttConnection\<close> does so for every input; \<open>postConnection\<close> does
  so for every request that passes its check of the payload (broker, username, clientId
  and password present), which comes before the read.
\<close>

theorem C5_attach_of_member_space_is_noop:
  assumes "selectConnection db b u = Some connection"
    and "spaceId \<in> set (sc_spaceIds connection)"
  shows "createMqttConnection a db now ax (MqttConnectionState b c u pw) t spaceId
           = \<lparr>reply = (200, OkTrue), store = db, calls = []\<rparr>
         \<and> (b \<noteq> [] \<and> u \<noteq> [] \<and> c \<noteq> [] \<and> \<not> falsy p \<longrightarrow>
              postConnection a db now ax spaceId (Some (MqttConnection b c u p sp))
                = \<lparr>reply = (200, OkTrue), store = db, calls = []\<rparr>)"
  using assms by (simp add: createMqttConnection_noop postConnection_noop)

theorem C5_attach_of_member_space_is_noop_witness:
  "selectConnection [example_row [''s1'', ''s2'']] ''b1'' ''u1''
     = Some (SelectConnectionRow ''b1'' ''c1'' ''u1'' [''s1'', ''s2''])
   \<and> ''s2'' \<in> set (sc_spaceIds (SelectConnectionRow ''b1'' ''c1'' ''u1'' [''s1'', ''s2'']))
   \<and> ''b1'' \<noteq> [] \<and> ''u1'' \<noteq> [] \<and> ''c7'' \<noteq> [] \<and> \<not> falsy (Some ''p7'')
   \<and> createMqttConnection ''http://mqttas'' [example_row [''s1'', ''s2'']] 5 (Resolved 200)
        (MqttConnectionState ''b1'' ''c7'' ''u1'' ''p7'') ''token'' ''s2''
       = \<lparr>reply = (200, OkTrue), store = [example_row [''s1'', ''s2'']], calls = []\<rparr>
   \<and> postConnection ''http://mqttas'' [example_row [''s1'', ''s2'']] 5 (Resolved 200) ''s2''
        (Some (MqttConnection ''b1'' ''c7'' ''u1'' (Some ''p7'') None))
       = \<lparr>reply = (200, OkTrue), store = [example_row [''s1'', ''s2'']], calls = []\<rparr>"
proof -
  have sel: "selectConnection [example_row [''s1'', ''s2'']] ''b1'' ''u1''
               = Some (SelectConnectionRow ''b1'' ''c1'' ''u1'' [''s1'', ''s2''])"
    by (rule example_select)
  have mem: "''s2'' \<in> set (sc_spaceIds (SelectConnectionRow ''b1'' ''c1'' ''u1'' [''s1'', ''s2'']))"
    by simp
  have valid: "''b1'' \<noteq> [] \<and> ''u1'' \<noteq> [] \<and> ''c7'' \<noteq> [] \<and> \<not> falsy (Some ''p7'')"
    by (simp add: falsy_def)
  from C5_attach_of_member_space_is_noop
         [OF sel mem, where a = "''http://mqttas''" and now = 5 and ax = "Resolved 200"
            and c = "''c7''" and pw = "''p7''" and t = "''token''" and p = "Some ''p7''"
            and sp = None]
       sel mem valid
  show ?thesis by blast
qed

text \<open>
  C6. A detach for an identity that has no row, or for a space that is not in the row's
  list, replies 404 with the message of its case (\<^verbatim>\<open>connection u@b not found\<close>,
  \<^verbatim>\<open>connection u@b not associated with space s\<close>), calls the orchestrator not at
  all and leaves the table unchanged. Both detach operations first check that username
  and broker are present; the statement is about the calls that pass this check.
\<close>

theorem C6_detach_not_found:
  assumes "u \<noteq> []" and "b \<noteq> []"
  shows "(selectConnection db b u = None \<longrightarrow>
            deleteConnection a db ax spaceId u b
              = \<lparr>reply = (404, ErrorBody (''connection '' @ u @ ''@'' @ b @ '' not found'')),
                 store = db, calls = []\<rparr>
            \<and> deleteMqttConnection a db ax (MqttConnectionState b c u pw) t spaceId
              = \<lparr>reply = (404, ErrorBody (''connection '' @ u @ ''@'' @ b @ '' not found'')),
                 store = db, calls = []\<rparr>)
         \<and> (selectConnection db b u = Some connection \<and> spaceId \<notin> set (sc_spaceIds connection) \<longrightarrow>
            deleteConnection a db ax spaceId u b
              = \<lparr>reply = (404, ErrorBody (''connection '' @ u @ ''@'' @ b
                                @ '' not associated with space '' @ spaceId)),
                 store = db, calls = []\<rparr>
            \<and> deleteMqttConnection a db ax (MqttConnectionState b c u pw) t spaceId
              = \<lparr>reply = (404, ErrorBody (''connection '' @ u @ ''@'' @ b
                                @ '' not associated with space '' @ spaceId)),
                 store = db, calls = []\<rparr>)"
  using assms
  by (simp add: deleteConnection_no_row deleteConnection_not_member
        deleteMqttConnection_no_row deleteMqttConnection_not_member)

theorem C6_detach_not_found_witness:
  "''u2'' \<noteq> [] \<and> ''b2'' \<noteq> [] \<and> selectConnection [example_row [''s1'']] ''b2'' ''u2'' = None
   \<and> deleteConnection ''http://mqttas'' [example_row [''s1'']] (Resolved 200) ''s9'' ''u2'' ''b2''
       = \<lparr>reply = (404, ErrorBody ''connection u2@b2 not found''),
          store = [example_row [''s1'']], calls = []\<rparr>
   \<and> deleteMqttConnection ''http://mqttas'' [example_row [''s1'']] (Resolved 200)
        (MqttConnectionState ''b2'' [] ''u2'' []) ''token'' ''s9''
       = \<lparr>reply = (404, ErrorBody ''connection u2@b2 not found''),
          store = [example_row [''s1'']], calls = []\<rparr>
   \<and> ''u1'' \<noteq> [] \<and> ''b1'' \<noteq> []
   \<and> selectConnection [example_row [''s1'']] ''b1'' ''u1''
       = Some (SelectConnectionRow ''b1'' ''c1'' ''u1'' [''s1''])
   \<and> ''s9'' \<notin> set (sc_spaceIds (SelectConnectionRow ''b1'' ''c1'' ''u1'' [''s1'']))
   \<and> deleteConnection ''http://mqttas'' [example_row [''s1'']] (Resolved 200) ''s9'' ''u1'' ''b1''
       = \<lparr>reply = (404, ErrorBody ''connection u1@b1 not associated with space s9''),
          store = [example_row [''s1'']], calls = []\<rparr>
   \<and> deleteMqttConnection ''http://mqttas'' [example_row [''s1'']] (Resolved 200)
        (MqttConnectionState ''b1'' [] ''u1'' []) ''token'' ''s9''
       = \<lparr>reply = (404, ErrorBody ''connection u1@b1 not associated with space s9''),
          store = [example_row [''s1'']], calls = []\<rparr>"
proof -
  have n2: "''u2'' \<noteq> []" "''b2'' \<noteq> []" and n1: "''u1'' \<noteq> []" "''b1'' \<noteq> []"
    by simp_all
  have absent: "selectConnection [example_row [''s1'']] ''b2'' ''u2'' = None"
    by (simp add: selectConnection_def one_row_def has_key_def example_row_def)
  have present: "selectConnection [example_row [''s1'']] ''b1'' ''u1''
                   = Some (SelectConnectionRow ''b1'' ''c1'' ''u1'' [''s1''])"
    by (rule example_select)
  have nonmember: "''s9'' \<notin> set (sc_spaceIds (SelectConnectionRow ''b1'' ''c1'' ''u1'' [''s1'']))"
    by simp
  have "deleteConnection ''http://mqttas'' [example_row [''s1'']] (Resolved 200) ''s9'' ''u2'' ''b2''
       = \<lparr>reply = (404, ErrorBody ''connection u2@b2 not found''),
          store = [example_row [''s1'']], calls = []\<rparr>
   \<and> deleteMqttConnection ''http://mqttas'' [example_row [''s1'']] (Resolved 200)
        (MqttConnectionState ''b2'' [] ''u2'' []) ''token'' ''s9''
       = \<lparr>reply = (404, ErrorBody ''connection u2@b2 not found''),
          store = [example_row [''s1'']], calls = []\<rparr>"
    using C6_detach_not_found
         [OF n2, where db = "[example_row [''s1'']]" and a = "''http://mqttas''"
            and ax = "Resolved 200" and spaceId = "''s9''" and c = "[]" and pw = "[]"
            and t = "''token''"] absent
    by simp
  moreover have "deleteConnection ''http://mqttas'' [example_row [''s1'']] (Resolved 200) ''s9'' ''u1'' ''b1''
       = \<lparr>reply = (404, ErrorBody ''connection u1@b1 not associated with space s9''),
          store = [example_row [''s1'']], calls = []\<rparr>
   \<and> deleteMqttConnection ''http://mqttas'' [example_row [''s1'']] (Resolved 200)
        (MqttConnectionState ''b1'' [] ''u1'' []) ''token'' ''s9''
       = \<lparr>reply = (404, ErrorBody ''connection u1@b1 not associated with space s9''),
          store = [example_row [''s1'']], calls = []\<rparr>"
    using C6_detach_not_found
         [OF n1, where db = "[example_row [''s1'']]" and a = "''http://mqttas''"
            and ax = "Resolved 200" and spaceId = "''s9''" and c = "[]" and pw = "[]"
            and t = "''token''"
            and connection = "SelectConnectionRow ''b1'' ''c1'' ''u1'' [''s1'']"] present nonmember
    by simp
  ultimately show ?thesis
    using n1 n2 absent present nonmember by blast
qed




text \<open>
  C8. Two concurrent attaches with different spaces for one identity that has no row
  make exactly one create call and one associate call, never two create calls, and both
  spaces are stored; calls for one identity are serialised from the read to the write.

  The code does not serialise them: \<open>postConnection\<close> takes no lock over its awaits.
  On the empty table, with both reads before either write, each attach finds no row and
  sends a \<^verbatim>\<open>POST\<close>; both reply \<^verbatim>\<open>200 { ok: true }\<close>; the second
  \<open>insertConnection\<close> meets the row of the first and stores nothing, so the second space
  is not stored. (\<open>overlapping_attaches\<close> is the general statement.)
\<close>

theorem C8_overlapping_attaches_two_creates:
  "selectConnection [] ''b1'' ''u1'' = None
   \<and> map req_method (calls (fst example_overlap) @ calls (snd example_overlap)) = [POST, POST]
   \<and> reply (fst example_overlap) = (200, OkTrue)
   \<and> reply (snd example_overlap) = (200, OkTrue)
   \<and> stored_spaces (store (snd example_overlap)) ''b1'' ''u1'' = {''!s1:hs''}
   \<and> ''!s2:hs'' \<notin> stored_spaces (store (snd example_overlap)) ''b1'' ''u1''"
proof -
  have "selectConnection [] ''b1'' ''u1'' = None"
    by (simp add: selectConnection_def one_row_def)
  moreover have "stored_spaces [example_row [''!s1:hs'']] ''b1'' ''u1'' = {''!s1:hs''}"
    by (simp add: stored_spaces_def example_select)
  ultimately show ?thesis
    by (simp add: example_overlap_outcomes)
qed

text \<open>
  C8, as the code has it. Two attaches with different spaces for one identity that has
  no row, the second starting when the first has returned, both answered with success
  by the orchestrator: the first sends a \<^verbatim>\<open>POST\<close> (create) and the second a
  \<^verbatim>\<open>PUT\<close> (associate), both reply \<^verbatim>\<open>200 { ok: true }\<close>, and both spaces are stored.
\<close>

theorem C8_attaches_one_after_the_other:
  assumes "filter (has_key b u) db = []"
    and "b \<noteq> []" "u \<noteq> []" "c1 \<noteq> []" "p1 \<noteq> []" "c2 \<noteq> []" "p2 \<noteq> []"
    and "s1 \<noteq> s2" and "\<not> axios_failed ax1" "\<not> axios_failed ax2"
  shows "map req_method
           (calls (fst (sequential_postConnection a db
                     now1 ax1 s1 (Some (MqttConnection b c1 u (Some p1) sp1))
                     now2 ax2 s2 (Some (MqttConnection b c2 u (Some p2) sp2))))
            @ calls (snd (sequential_postConnection a db
                     now1 ax1 s1 (Some (MqttConnection b c1 u (Some p1) sp1))
                     now2 ax2 s2 (Some (MqttConnection b c2 u (Some p2) sp2)))))
           = [POST, PUT]
         \<and> reply (fst (sequential_postConnection a db
                     now1 ax1 s1 (Some (MqttConnection b c1 u (Some p1) sp1))
                     now2 ax2 s2 (Some (MqttConnection b c2 u (Some p2) sp2)))) = (200, OkTrue)
         \<and> reply (snd (sequential_postConnection a db
                     now1 ax1 s1 (Some (MqttConnection b c1 u (Some p1) sp1))
                     now2 ax2 s2 (Some (MqttConnection b c2 u (Some p2) sp2)))) = (200, OkTrue)
         \<and> stored_spaces (store (snd (sequential_postConnection a db
                     now1 ax1 s1 (Some (MqttConnection b c1 u (Some p1) sp1))
                     now2 ax2 s2 (Some (MqttConnection b c2 u (Some p2) sp2))))) b u = {s1, s2}"
proof -
  let ?db1 = "fst (insertConnection db now1 b c1 u p1 [s1])"
  have first: "postConnection a db now1 ax1 s1 (Some (MqttConnection b c1 u (Some p1) sp1))
           = \<lparr>reply = (200, OkTrue), store = ?db1,
              calls = [\<lparr>req_method = POST, req_url = a @ ''/connection?space_id='' @ s1,
                        req_connection = [(''broker'', b), (''username'', u),
                                          (''client_id'', c1), (''password'', p1)],
                        req_headers = [(''Content-Type'', ''application/json'')]\<rparr>]\<rparr>"
    using assms by (simp add: postConnection_create)
  have read: "selectConnection ?db1 b u = Some (SelectConnectionRow b c1 u [s1])"
    using assms(1) by (rule selectConnection_insertConnection)
  have "s2 \<notin> set (sc_spaceIds (SelectConnectionRow b c1 u [s1]))"
    using assms(8) by simp
  from postConnection_associate[OF read this assms(2,3,6,7,10), of a now2 sp2]
  have second: "postConnection a ?db1 now2 ax2 s2 (Some (MqttConnection b c2 u (Some p2) sp2))
           = \<lparr>reply = (200, OkTrue),
              store = fst (updateConnectionAssociatedSpaces ?db1 ([s1] @ [s2]) b u),
              calls = [\<lparr>req_method = PUT, req_url = a @ ''/connection?space_id='' @ s2,
                        req_connection = [(''broker'', b), (''username'', u)],
                        req_headers = [(''Content-Type'', ''application/json'')]\<rparr>]\<rparr>"
    by simp
  have "stored_spaces (fst (updateConnectionAssociatedSpaces ?db1 ([s1] @ [s2]) b u)) b u = {s1, s2}"
    using selectConnection_updateConnectionAssociatedSpaces[OF read, of "[s1] @ [s2]"]
    by (simp add: stored_spaces_def)
  with first second show ?thesis
    by (simp add: sequential_postConnection_def Let_def)
qed


theorem C8_attaches_one_after_the_other_witness:
  "filter (has_key ''b1'' ''u1'') [] = []
   \<and> ''b1'' \<noteq> [] \<and> ''u1'' \<noteq> [] \<and> ''c1'' \<noteq> [] \<and> ''p1'' \<noteq> []
   \<and> ''!s1:hs'' \<noteq> ''!s2:hs'' \<and> \<not> axios_failed (Resolved 200)
   \<and> map req_method
        (calls (fst (sequential_postConnection ''http://mqttas'' []
                  0 (Resolved 200) ''!s1:hs''
                    (Some (MqttConnection ''b1'' ''c1'' ''u1'' (Some ''p1'') None))
                  1 (Resolved 200) ''!s2:hs''
                    (Some (MqttConnection ''b1'' ''c1'' ''u1'' (Some ''p1'') None))))
         @ calls (snd (sequential_postConnection ''http://mqttas'' []
                  0 (Resolved 200) ''!s1:hs''
                    (Some (MqttConnection ''b1'' ''c1'' ''u1'' (Some ''p1'') None))
                  1 (Resolved 200) ''!s2:hs''
                    (Some (MqttConnection ''b1'' ''c1'' ''u1'' (Some ''p1'') None)))))
       = [POST, PUT]
   \<and> reply (fst (sequential_postConnection ''http://mqttas'' []
                  0 (Resolved 200) ''!s1:hs''
                    (Some (MqttConnection ''b1'' ''c1'' ''u1'' (Some ''p1'') None))
                  1 (Resolved 200) ''!s2:hs''
                    (Some (MqttConnection ''b1'' ''c1'' ''u1'' (Some ''p1'') None)))) = (200, OkTrue)
   \<and> reply (snd (sequential_postConnection ''http://mqttas'' []
                  0 (Resolved 200) ''!s1:hs''
                    (Some (MqttConnection ''b1'' ''c1'' ''u1'' (Some ''p1'') None))
                  1 (Resolved 200) ''!s2:hs''
                    (Some (MqttConnection ''b1'' ''c1'' ''u1'' (Some ''p1'') None)))) = (200, OkTrue)
   \<and> stored_spaces (store (snd (sequential_postConnection ''http://mqttas'' []
                  0 (Resolved 200) ''!s1:hs''
                    (Some (MqttConnection ''b1'' ''c1'' ''u1'' (Some ''p1'') None))
                  1 (Resolved 200) ''!s2:hs''
                    (Some (MqttConnection ''b1'' ''c1'' ''u1'' (Some ''p1'') None)))))
        ''b1'' ''u1'' = {''!s1:hs'', ''!s2:hs''}"
proof -
  have absent: "filter (has_key ''b1'' ''u1'') [] = []"
    by simp
  have present: "''b1'' \<noteq> []" "''u1'' \<noteq> []" "''c1'' \<noteq> []" "''p1'' \<noteq> []"
    by simp_all
  have different: "''!s1:hs'' \<noteq> ''!s2:hs''"
    by simp
  have ok: "\<not> axios_failed (Resolved 200)"
    by simp
  from C8_attaches_one_after_the_other
         [OF absent present(1,2,3,4,3,4) different ok ok,
          where a = "''http://mqttas''" and ?now1.0 = 0 and ?now2.0 = 1
            and ?sp1.0 = None and ?sp2.0 = None]
       absent present different ok
  show ?thesis by blast
qed

text \<open>
  C10. The reply of \<^verbatim>\<open>GET /mqtt/connections\<close> holds, for each connection of the
  space, broker, clientId and username, and neither the password nor the space list.
  Two tables that are equal once the passwords are erased give the same reply for
  every space.
\<close>

theorem C10_listing_hides_password:
  "(map erase_password db1 = map erase_password db2
      \<longrightarrow> getConnections db1 spaceId = getConnections db2 spaceId)
   \<and> (getConnections db spaceId = (status, MqttClients entries)
      \<longrightarrow> list_all (\<lambda>e. mc_password e = None \<and> mc_spacesIds e = None) entries)"
proof -
  have "getConnections db1 spaceId = getConnections db2 spaceId"
    if "map erase_password db1 = map erase_password db2"
  proof -
    have "getConnections db1 spaceId = getConnections (map erase_password db1) spaceId"
      by (simp only: getConnections_erase_password)
    also have "\<dots> = getConnections (map erase_password db2) spaceId"
      by (simp only: that)
    also have "\<dots> = getConnections db2 spaceId"
      by (simp only: getConnections_erase_password)
    finally show ?thesis .
  qed
  then show ?thesis
    using getConnections_entries[of db spaceId status entries] by blast
qed

theorem C10_listing_hides_password_witness:
  "map erase_password [example_row [''s1'']]
     = map erase_password [(example_row [''s1''])\<lparr>password := ''hunter2''\<rparr>]
   \<and> getConnections [example_row [''s1'']] ''s1''
       = getConnections [(example_row [''s1''])\<lparr>password := ''hunter2''\<rparr>] ''s1''
   \<and> getConnections [example_row [''s1'']] ''s1''
       = (200, MqttClients [MqttConnection ''b1'' ''c1'' ''u1'' None None])
   \<and> list_all (\<lambda>e. mc_password e = None \<and> mc_spacesIds e = None)
        [MqttConnection ''b1'' ''c1'' ''u1'' None None]"
proof -
  have same: "map erase_password [example_row [''s1'']]
                = map erase_password [(example_row [''s1''])\<lparr>password := ''hunter2''\<rparr>]"
    by (simp add: erase_password_def)
  have listing: "getConnections [example_row [''s1'']] ''s1''
                   = (200, MqttClients [MqttConnection ''b1'' ''c1'' ''u1'' None None])"
    by code_simp
  from C10_listing_hides_password
         [where ?db1.0 = "[example_row [''s1'']]"
            and ?db2.0 = "[(example_row [''s1''])\<lparr>password := ''hunter2''\<rparr>]"
            and db = "[example_row [''s1'']]" and spaceId = "''s1''" and status = 200
            and entries = "[MqttConnection ''b1'' ''c1'' ''u1'' None None]"]
       same listing
  show ?thesis by blast
qed


end
